theory Spec2Isabelle
  imports Main "HOL-Library.Sublist" "HOL-Library.Multiset"
begin

section \<open>The result container: class Arrivals (tau.py, lines 14-29)\<close>

text \<open>
  \<^verbatim>\<open>class Arrivals(list)\<close> is a Python list. Its constructor starts from the empty
  list (\<^verbatim>\<open>super().__init__()\<close>) and then calls \<^verbatim>\<open>self.extend(arrivals)\<close>.
  The element type is left open: an arrival is whatever the engine produced.
\<close>

definition list_extend :: "'a list \<Rightarrow> 'a list \<Rightarrow> 'a list" where
  "list_extend self xs = self @ xs"

definition Arrivals_init :: "'a list \<Rightarrow> 'a list" where
  "Arrivals_init arrs = list_extend [] arrs"

text \<open>
  Python's \<^verbatim>\<open>sep.join(parts)\<close>: the parts, with the separator between each two
  neighbours, none before the first and none after the last.
\<close>

fun join :: "string \<Rightarrow> string list \<Rightarrow> string" where
  "join sep [] = []"
| "join sep [x] = x"
| "join sep (x # y # ys) = x @ sep @ join sep (y # ys)"

text \<open>
  The decimal rendering of a non-negative integer, as \<^verbatim>\<open>"{count}".format(count=len(self))\<close>
  prints it: most significant digit first, no leading zero, \<^verbatim>\<open>0\<close> for zero.
\<close>

function str_of_nat :: "nat \<Rightarrow> string" where
  "str_of_nat n =
     (if n < 10 then [''0123456789'' ! n]
      else str_of_nat (n div 10) @ [''0123456789'' ! (n mod 10)])"
  by pat_completeness auto
termination
  by (relation "measure id") auto

declare str_of_nat.simps [simp del]

text \<open>The two control characters of the format string \<^verbatim>\<open>"{count} arrivals\n\t{arrivals}"\<close>.\<close>

definition newline :: char where
  "newline = CHR 0x0A"

definition tab :: char where
  "tab = CHR 0x09"

text \<open>
  \<^verbatim>\<open>__str__\<close> and \<^verbatim>\<open>__repr__\<close>. The elements' own \<^verbatim>\<open>str\<close> and \<^verbatim>\<open>repr\<close> belong to the
  engine's arrival class, so they are parameters.
\<close>

definition Arrivals_str :: "('a \<Rightarrow> string) \<Rightarrow> 'a list \<Rightarrow> string" where
  "Arrivals_str str_elem self =
     str_of_nat (length self) @ '' arrivals'' @ [newline, tab]
       @ join [newline, tab] (map str_elem self)"

definition Arrivals_repr :: "('a \<Rightarrow> string) \<Rightarrow> 'a list \<Rightarrow> string" where
  "Arrivals_repr repr_elem self = ''['' @ join '', '' (map repr_elem self) @ '']''"

section \<open>Errors, models and collaborators\<close>

text \<open>
  The exceptions the facade tells apart: \<^verbatim>\<open>except FileNotFoundError\<close> catches the
  "not found" condition of the loader, every other exception passes through. The payload
  of \<open>OtherError\<close> identifies the exception that was raised.
\<close>

datatype exn = FileNotFoundError | OtherError string

text \<open>
  The loaded model is read only through the attribute path
  \<^verbatim>\<open>self.model.sMod.vMod.modelName\<close>; the classes behind it live in other modules.
\<close>

record VelocityModel =
  modelName :: string

record SlownessModel =
  vMod :: VelocityModel

record TauModel =
  sMod :: SlownessModel

text \<open>The facade object: the two attributes \<^verbatim>\<open>__init__\<close> assigns.\<close>

record TauPyModel =
  model :: TauModel
  verbose :: bool

text \<open>
  The three engine classes with the arguments their constructors receive, in the order of
  the call sites: phase list, model name, source depth, distance and, for the travel-time
  engine only, the coordinate list. Depths, distances and coordinates are numbers the
  facade never inspects (type \<open>'n\<close>); \<open>None\<close> is Python's \<^verbatim>\<open>None\<close>, the default of
  \<^verbatim>\<open>distance_in_degree\<close> and \<^verbatim>\<open>coordinate_list\<close> in \<^verbatim>\<open>get_travel_time\<close>.
\<close>

datatype 'n engine_args =
    TauP_Time "string list" string 'n "'n option" "'n list option"
  | TauP_Pierce "string list" string 'n 'n
  | TauP_Path "string list" string 'n 'n

text \<open>
  Every call the facade makes to the outside is recorded, in order, with its arguments.
\<close>

datatype 'n event =
    Ev_load string string bool
  | Ev_print string
  | Ev_TauP_Create_main string string
  | Ev_engine_init "'n engine_args"
  | Ev_engine_run bool

text \<open>
  The collaborators imported at the top of tau.py, as parameters. Each one acts on the
  outside world \<open>'w\<close> (the file system, the console) and either raises or returns:
  \<^item> \<open>taup_model_path\<close>: the directory \<^verbatim>\<open>__init__\<close> computes from the location of the
    module (\<^verbatim>\<open><module directory>/data/taup_models\<close>);
  \<^item> \<open>load\<close>: \<^verbatim>\<open>TauModelLoader.load(model, path, verbose=verbose)\<close>;
  \<^item> \<open>TauP_Create_main\<close>: \<^verbatim>\<open>TauP_Create.main(model_file_name, output_dir)\<close>;
  \<^item> \<open>engine_init\<close>: the constructor of the engine class named by the argument;
  \<^item> \<open>engine_run\<close>: \<^verbatim>\<open>run(print_output)\<close>, which updates the engine object \<open>'e\<close>;
  \<^item> \<open>engine_arrivals\<close>: the attribute \<^verbatim>\<open>arrivals\<close> of the engine object.
\<close>

record ('w, 'n, 'e, 'a) collaborators =
  taup_model_path :: string
  load :: "string \<Rightarrow> string \<Rightarrow> bool \<Rightarrow> 'w \<Rightarrow> (exn + TauModel) \<times> 'w"
  TauP_Create_main :: "string \<Rightarrow> string \<Rightarrow> 'w \<Rightarrow> (exn + unit) \<times> 'w"
  engine_init :: "'n engine_args \<Rightarrow> 'w \<Rightarrow> (exn + 'e) \<times> 'w"
  engine_run :: "'e \<Rightarrow> bool \<Rightarrow> 'w \<Rightarrow> (exn + 'e) \<times> 'w"
  engine_arrivals :: "'e \<Rightarrow> 'a list"

text \<open>The state threaded through the facade: the outside world and the calls made so far.\<close>

type_synonym ('w, 'n) world = "'w \<times> 'n event list"

definition call_load ::
  "('w, 'n, 'e, 'a) collaborators \<Rightarrow> string \<Rightarrow> string \<Rightarrow> bool \<Rightarrow> ('w, 'n) world
     \<Rightarrow> (exn + TauModel) \<times> ('w, 'n) world" where
  "call_load C name path vb s =
     (case s of (w, tr) \<Rightarrow>
        (case load C name path vb w of
           (r, w') \<Rightarrow> (r, (w', tr @ [Ev_load name path vb]))))"

definition call_print :: "string \<Rightarrow> ('w, 'n) world \<Rightarrow> ('w, 'n) world" where
  "call_print msg s = (case s of (w, tr) \<Rightarrow> (w, tr @ [Ev_print msg]))"

definition call_TauP_Create_main ::
  "('w, 'n, 'e, 'a) collaborators \<Rightarrow> string \<Rightarrow> string \<Rightarrow> ('w, 'n) world
     \<Rightarrow> (exn + unit) \<times> ('w, 'n) world" where
  "call_TauP_Create_main C model_file_name output_dir s =
     (case s of (w, tr) \<Rightarrow>
        (case TauP_Create_main C model_file_name output_dir w of
           (r, w') \<Rightarrow> (r, (w', tr @ [Ev_TauP_Create_main model_file_name output_dir]))))"

definition call_engine_init ::
  "('w, 'n, 'e, 'a) collaborators \<Rightarrow> 'n engine_args \<Rightarrow> ('w, 'n) world
     \<Rightarrow> (exn + 'e) \<times> ('w, 'n) world" where
  "call_engine_init C args s =
     (case s of (w, tr) \<Rightarrow>
        (case engine_init C args w of
           (r, w') \<Rightarrow> (r, (w', tr @ [Ev_engine_init args]))))"

definition call_engine_run ::
  "('w, 'n, 'e, 'a) collaborators \<Rightarrow> 'e \<Rightarrow> bool \<Rightarrow> ('w, 'n) world
     \<Rightarrow> (exn + 'e) \<times> ('w, 'n) world" where
  "call_engine_run C eng print_output s =
     (case s of (w, tr) \<Rightarrow>
        (case engine_run C eng print_output w of
           (r, w') \<Rightarrow> (r, (w', tr @ [Ev_engine_run print_output]))))"

section \<open>The facade: class TauPyModel (tau.py, lines 32-129)\<close>

text \<open>
  \<^verbatim>\<open>create_taup_model(model_name, output_dir)\<close>, a static method: the file name is the
  model name itself when it contains a dot, the model name with \<^verbatim>\<open>.tvel\<close> appended
  otherwise. The result of \<^verbatim>\<open>TauP_Create.main\<close> is dropped.
\<close>

definition model_file_name_of :: "string \<Rightarrow> string" where
  "model_file_name_of model_name =
     (if CHR ''.'' \<in> set model_name then model_name else model_name @ ''.tvel'')"

definition create_taup_model ::
  "('w, 'n, 'e, 'a) collaborators \<Rightarrow> string \<Rightarrow> string \<Rightarrow> ('w, 'n) world
     \<Rightarrow> (exn + unit) \<times> ('w, 'n) world" where
  "create_taup_model C model_name output_dir s =
     call_TauP_Create_main C (model_file_name_of model_name) output_dir s"

text \<open>The diagnostic printed before the build (the two literals join without a space).\<close>

definition not_found_message :: "string \<Rightarrow> string" where
  "not_found_message model_name =
     ''A '' @ model_name @ ''.taup model file was not found in the taup_models''
       @ ''directory, will try to create one. '' @ ''This may take a while.''"

text \<open>
  \<^verbatim>\<open>__init__(self, model="iasp91", verbose=False)\<close>. An argument the caller leaves out is
  \<open>None\<close> here and takes its default (\<open>model_default\<close>, and \<open>flag_default\<close> for a flag
  whose default is \<^verbatim>\<open>False\<close>). The first load is inside \<^verbatim>\<open>try\<close>; the handler of
  \<^verbatim>\<open>FileNotFoundError\<close> prints, builds and loads again, and nothing inside the handler is
  caught. \<^verbatim>\<open>self.model\<close> and \<^verbatim>\<open>self.verbose\<close> are assigned only when a load returned.
\<close>

definition model_default :: "string option \<Rightarrow> string" where
  "model_default model_arg = (case model_arg of None \<Rightarrow> ''iasp91'' | Some m \<Rightarrow> m)"

definition flag_default :: "bool option \<Rightarrow> bool" where
  "flag_default flag_arg = (case flag_arg of None \<Rightarrow> False | Some b \<Rightarrow> b)"

definition TauPyModel_init ::
  "('w, 'n, 'e, 'a) collaborators \<Rightarrow> string option \<Rightarrow> bool option \<Rightarrow> ('w, 'n) world
     \<Rightarrow> (exn + TauPyModel) \<times> ('w, 'n) world" where
  "TauPyModel_init C model_arg verbose_arg s =
     (let model_name = model_default model_arg;
          vb = flag_default verbose_arg;
          path = taup_model_path C
      in case call_load C model_name path vb s of
           (Inr m, s1) \<Rightarrow> (Inr \<lparr>model = m, verbose = vb\<rparr>, s1)
         | (Inl FileNotFoundError, s1) \<Rightarrow>
             (case create_taup_model C model_name path
                     (call_print (not_found_message model_name) s1) of
                (Inl e, s3) \<Rightarrow> (Inl e, s3)
              | (Inr _, s3) \<Rightarrow>
                  (case call_load C model_name path vb s3 of
                     (Inl e, s4) \<Rightarrow> (Inl e, s4)
                   | (Inr m, s4) \<Rightarrow> (Inr \<lparr>model = m, verbose = vb\<rparr>, s4)))
         | (Inl (OtherError x), s1) \<Rightarrow> (Inl (OtherError x), s1))"

text \<open>
  The three query methods. Each one replaces a phase list that is \<^verbatim>\<open>None\<close> by
  \<^verbatim>\<open>["ttall"]\<close> (the test is \<^verbatim>\<open>phase_list is not None\<close>), constructs the engine with the
  name of the bound model, runs it and wraps its arrivals. \<^verbatim>\<open>print_output\<close> defaults to
  \<^verbatim>\<open>False\<close>. No method assigns to \<^verbatim>\<open>self\<close>; the facade is returned beside the result so
  that this is part of the model.
\<close>

definition get_travel_time ::
  "('w, 'n, 'e, 'a) collaborators \<Rightarrow> TauPyModel \<Rightarrow> 'n \<Rightarrow> 'n option \<Rightarrow> string list option
     \<Rightarrow> bool option \<Rightarrow> 'n list option \<Rightarrow> ('w, 'n) world
     \<Rightarrow> (exn + 'a list) \<times> TauPyModel \<times> ('w, 'n) world" where
  "get_travel_time C self source_depth_in_km distance_in_degree phase_list print_output
       coordinate_list s =
     (let phase_list' = (case phase_list of Some p \<Rightarrow> p | None \<Rightarrow> [''ttall'']);
          po = flag_default print_output
      in case call_engine_init C
                (TauP_Time phase_list' (modelName (vMod (sMod (model self))))
                   source_depth_in_km distance_in_degree coordinate_list) s of
           (Inl e, s1) \<Rightarrow> (Inl e, self, s1)
         | (Inr tt, s1) \<Rightarrow>
             (case call_engine_run C tt po s1 of
                (Inl e, s2) \<Rightarrow> (Inl e, self, s2)
              | (Inr tt', s2) \<Rightarrow> (Inr (Arrivals_init (engine_arrivals C tt')), self, s2)))"

definition get_pierce_points ::
  "('w, 'n, 'e, 'a) collaborators \<Rightarrow> TauPyModel \<Rightarrow> 'n \<Rightarrow> 'n \<Rightarrow> string list option
     \<Rightarrow> bool option \<Rightarrow> ('w, 'n) world
     \<Rightarrow> (exn + 'a list) \<times> TauPyModel \<times> ('w, 'n) world" where
  "get_pierce_points C self source_depth_in_km distance_in_degree phase_list print_output s =
     (let phase_list' = (case phase_list of Some p \<Rightarrow> p | None \<Rightarrow> [''ttall'']);
          po = flag_default print_output
      in case call_engine_init C
                (TauP_Pierce phase_list' (modelName (vMod (sMod (model self))))
                   source_depth_in_km distance_in_degree) s of
           (Inl e, s1) \<Rightarrow> (Inl e, self, s1)
         | (Inr pp, s1) \<Rightarrow>
             (case call_engine_run C pp po s1 of
                (Inl e, s2) \<Rightarrow> (Inl e, self, s2)
              | (Inr pp', s2) \<Rightarrow> (Inr (Arrivals_init (engine_arrivals C pp')), self, s2)))"

definition get_ray_paths ::
  "('w, 'n, 'e, 'a) collaborators \<Rightarrow> TauPyModel \<Rightarrow> 'n \<Rightarrow> 'n \<Rightarrow> string list option
     \<Rightarrow> bool option \<Rightarrow> ('w, 'n) world
     \<Rightarrow> (exn + 'a list) \<times> TauPyModel \<times> ('w, 'n) world" where
  "get_ray_paths C self source_depth_in_km distance_in_degree phase_list print_output s =
     (let phase_list' = (case phase_list of Some p \<Rightarrow> p | None \<Rightarrow> [''ttall'']);
          po = flag_default print_output
      in case call_engine_init C
                (TauP_Path phase_list' (modelName (vMod (sMod (model self))))
                   source_depth_in_km distance_in_degree) s of
           (Inl e, s1) \<Rightarrow> (Inl e, self, s1)
         | (Inr rp, s1) \<Rightarrow>
             (case call_engine_run C rp po s1 of
                (Inl e, s2) \<Rightarrow> (Inl e, self, s2)
              | (Inr rp', s2) \<Rightarrow> (Inr (Arrivals_init (engine_arrivals C rp')), self, s2)))"

text \<open>The recorded calls that load or build a model.\<close>

fun loads_or_builds :: "'n event \<Rightarrow> bool" where
  "loads_or_builds (Ev_load _ _ _) = True"
| "loads_or_builds (Ev_TauP_Create_main _ _) = True"
| "loads_or_builds _ = False"

section \<open>A concrete environment\<close>

text \<open>
  A small model directory to run the facade on. The world is the list of artifacts in the
  directory. The loader finds a model when its name is in the list and rejects the
  artifact named \<^verbatim>\<open>corrupt\<close> as unreadable. The builder knows one velocity file,
  \<^verbatim>\<open>ak135.tvel\<close>, and writes the artifact \<^verbatim>\<open>ak135\<close> from it; from \<^verbatim>\<open>ghost.tvel\<close> it
  returns without writing anything; every other file name is an error. An engine object
  is its constructor call, and its arrivals are the names of the requested phases.
\<close>

definition tau_model_named :: "string \<Rightarrow> TauModel" where
  "tau_model_named name = \<lparr>sMod = \<lparr>vMod = \<lparr>modelName = name\<rparr>\<rparr>\<rparr>"

fun requested_phases :: "'n engine_args \<Rightarrow> string list" where
  "requested_phases (TauP_Time ps _ _ _ _) = ps"
| "requested_phases (TauP_Pierce ps _ _ _) = ps"
| "requested_phases (TauP_Path ps _ _ _) = ps"

definition dir_collaborators ::
  "(string list, int, int engine_args, string) collaborators" where
  "dir_collaborators =
     \<lparr>taup_model_path = ''taupy/data/taup_models'',
      load = (\<lambda>name path vb w.
         if name = ''corrupt'' then (Inl (OtherError ''unreadable artifact''), w)
         else if name \<in> set w then (Inr (tau_model_named name), w)
         else (Inl FileNotFoundError, w)),
      TauP_Create_main = (\<lambda>file_name out w.
         if file_name = ''ak135.tvel'' then (Inr (), ''ak135'' # w)
         else if file_name = ''ghost.tvel'' then (Inr (), w)
         else (Inl (OtherError ''no velocity file''), w)),
      engine_init = (\<lambda>args w. (Inr args, w)),
      engine_run = (\<lambda>eng po w. (Inr eng, w)),
      engine_arrivals = requested_phases\<rparr>"

section \<open>Properties of the result container\<close>

lemma join_Cons: "join sep (x # xs) = x @ concat (map (\<lambda>y. sep @ y) xs)"
  by (induction xs arbitrary: x) simp_all

lemma str_of_nat_0: "str_of_nat 0 = ''0''"
  by (simp add: str_of_nat.simps [of 0])

text \<open>
  C5: the collection built from a sequence of arrivals has the same length, the same
  elements with the same multiplicities, and the same order: it is the sequence itself.
  Nothing is filtered, sorted or deduplicated.
\<close>

theorem Arrivals_init_preserves:
  "Arrivals_init arrs = arrs
   \<and> length (Arrivals_init arrs) = length arrs
   \<and> mset (Arrivals_init arrs) = mset arrs
   \<and> set (Arrivals_init arrs) = set arrs"
  by (simp add: Arrivals_init_def list_extend_def)

text \<open>
  C6: the human-readable form is the element count in decimal, the text " arrivals", and
  then every element's own human-readable form on a line of its own, each after a newline
  and a tab (for a collection without elements, the newline and the tab alone). The
  machine-oriented form is an opening bracket, the elements' machine-oriented forms with
  a comma and a space between neighbours, and a closing bracket.
\<close>

theorem Arrivals_display:
  "prefix (str_of_nat (length self) @ '' arrivals'') (Arrivals_str str_elem self)
   \<and> Arrivals_str str_elem self =
       str_of_nat (length self) @ '' arrivals'' @
         (case self of
            [] \<Rightarrow> [newline, tab]
          | _ # _ \<Rightarrow> concat (map (\<lambda>a. [newline, tab] @ str_elem a) self))
   \<and> Arrivals_repr repr_elem self =
       ''['' @
         (case self of
            [] \<Rightarrow> []
          | a # rest \<Rightarrow> repr_elem a @ concat (map (\<lambda>b. '', '' @ repr_elem b) rest))
       @ '']''"
proof (cases self)
  case Nil
  then show ?thesis
    by (simp add: Arrivals_str_def Arrivals_repr_def)
next
  case (Cons a rest)
  have s: "Arrivals_str str_elem (a # rest) =
      str_of_nat (length (a # rest)) @ '' arrivals'' @
        concat (map (\<lambda>a. [newline, tab] @ str_elem a) (a # rest))"
    unfolding Arrivals_str_def by (simp add: join_Cons comp_def del: join.simps)
  have r: "Arrivals_repr repr_elem (a # rest) =
      ''['' @ (repr_elem a @ concat (map (\<lambda>b. '', '' @ repr_elem b) rest)) @ '']''"
    unfolding Arrivals_repr_def by (simp add: join_Cons comp_def del: join.simps)
  have p: "prefix (str_of_nat (length (a # rest)) @ '' arrivals'')
      (Arrivals_str str_elem (a # rest))"
    unfolding Arrivals_str_def by (simp del: join.simps)
  from s r p Cons show ?thesis by simp
qed

text \<open>
  C10: for the empty sequence the human-readable form is "0 arrivals", a newline and one
  tab (the indented second line is there although no element follows), and the
  machine-oriented form is "[]".
\<close>

theorem Arrivals_empty_display:
  "Arrivals_str str_elem (Arrivals_init []) = ''0 arrivals'' @ [CHR 0x0A, CHR 0x09]
   \<and> Arrivals_repr repr_elem (Arrivals_init []) = ''[]''"
  by (simp add: Arrivals_str_def Arrivals_repr_def Arrivals_init_def list_extend_def
      str_of_nat_0 newline_def tab_def)

section \<open>Properties of the facade\<close>

lemma model_default_simps:
  "model_default None = ''iasp91''" "model_default (Some m) = m"
  by (simp_all add: model_default_def)

lemma flag_default_simps:
  "flag_default None = False" "flag_default (Some b) = b"
  by (simp_all add: flag_default_def)

lemmas init_defs =
  TauPyModel_init_def call_load_def call_print_def create_taup_model_def
  call_TauP_Create_main_def Let_def

lemma init_found:
  assumes "load C (model_default ma) (taup_model_path C) (flag_default va) w = (Inr m, w1)"
  shows "TauPyModel_init C ma va (w, tr) =
    (Inr \<lparr>model = m, verbose = flag_default va\<rparr>,
     (w1, tr @ [Ev_load (model_default ma) (taup_model_path C) (flag_default va)]))"
  using assms by (simp add: init_defs)

lemma init_other_error:
  assumes "load C (model_default ma) (taup_model_path C) (flag_default va) w =
     (Inl (OtherError x), w1)"
  shows "TauPyModel_init C ma va (w, tr) =
    (Inl (OtherError x),
     (w1, tr @ [Ev_load (model_default ma) (taup_model_path C) (flag_default va)]))"
  using assms by (simp add: init_defs)

lemma init_not_found_build_fails:
  assumes "load C (model_default ma) (taup_model_path C) (flag_default va) w =
     (Inl FileNotFoundError, w1)"
    and "TauP_Create_main C (model_file_name_of (model_default ma)) (taup_model_path C) w1 =
     (Inl e, w2)"
  shows "TauPyModel_init C ma va (w, tr) =
    (Inl e,
     (w2, tr @
       [Ev_load (model_default ma) (taup_model_path C) (flag_default va),
        Ev_print (not_found_message (model_default ma)),
        Ev_TauP_Create_main (model_file_name_of (model_default ma)) (taup_model_path C)]))"
  using assms by (simp add: init_defs)

lemma init_not_found_build_returns:
  assumes "load C (model_default ma) (taup_model_path C) (flag_default va) w =
     (Inl FileNotFoundError, w1)"
    and "TauP_Create_main C (model_file_name_of (model_default ma)) (taup_model_path C) w1 =
     (Inr u, w2)"
    and "load C (model_default ma) (taup_model_path C) (flag_default va) w2 = (r, w3)"
  shows "TauPyModel_init C ma va (w, tr) =
    (map_sum id (\<lambda>m. \<lparr>model = m, verbose = flag_default va\<rparr>) r,
     (w3, tr @
       [Ev_load (model_default ma) (taup_model_path C) (flag_default va),
        Ev_print (not_found_message (model_default ma)),
        Ev_TauP_Create_main (model_file_name_of (model_default ma)) (taup_model_path C),
        Ev_load (model_default ma) (taup_model_path C) (flag_default va)]))"
  using assms by (cases r) (simp_all add: init_defs)

lemma init_success_cases:
  assumes "TauPyModel_init C ma va (w, tr) = (Inr self, (w', tr'))"
  shows "verbose self = flag_default va \<and>
     ((load C (model_default ma) (taup_model_path C) (flag_default va) w =
         (Inr (model self), w') \<and>
       tr' = tr @ [Ev_load (model_default ma) (taup_model_path C) (flag_default va)]) \<or>
      (\<exists>wa u wb.
         load C (model_default ma) (taup_model_path C) (flag_default va) w =
           (Inl FileNotFoundError, wa) \<and>
         TauP_Create_main C (model_file_name_of (model_default ma)) (taup_model_path C) wa =
           (Inr u, wb) \<and>
         load C (model_default ma) (taup_model_path C) (flag_default va) wb =
           (Inr (model self), w') \<and>
         tr' = tr @
           [Ev_load (model_default ma) (taup_model_path C) (flag_default va),
            Ev_print (not_found_message (model_default ma)),
            Ev_TauP_Create_main (model_file_name_of (model_default ma)) (taup_model_path C),
            Ev_load (model_default ma) (taup_model_path C) (flag_default va)]))"
  using assms
  by (auto simp: init_defs split: prod.splits sum.splits exn.splits)

lemma get_travel_time_trace:
  "\<exists>r w' evs.
     get_travel_time C self d dist pl po cl (w, tr) = (r, self, (w', tr @ evs))
     \<and> (evs = [Ev_engine_init (TauP_Time (case pl of Some p \<Rightarrow> p | None \<Rightarrow> [''ttall''])
                   (modelName (vMod (sMod (model self)))) d dist cl)]
        \<or> evs = [Ev_engine_init (TauP_Time (case pl of Some p \<Rightarrow> p | None \<Rightarrow> [''ttall''])
                   (modelName (vMod (sMod (model self)))) d dist cl),
                 Ev_engine_run (flag_default po)])
     \<and> filter loads_or_builds evs = []"
  by (auto simp: get_travel_time_def call_engine_init_def call_engine_run_def Let_def
      split: prod.splits sum.splits)

lemma get_pierce_points_trace:
  "\<exists>r w' evs.
     get_pierce_points C self d dist pl po (w, tr) = (r, self, (w', tr @ evs))
     \<and> (evs = [Ev_engine_init (TauP_Pierce (case pl of Some p \<Rightarrow> p | None \<Rightarrow> [''ttall''])
                   (modelName (vMod (sMod (model self)))) d dist)]
        \<or> evs = [Ev_engine_init (TauP_Pierce (case pl of Some p \<Rightarrow> p | None \<Rightarrow> [''ttall''])
                   (modelName (vMod (sMod (model self)))) d dist),
                 Ev_engine_run (flag_default po)])
     \<and> filter loads_or_builds evs = []"
  by (auto simp: get_pierce_points_def call_engine_init_def call_engine_run_def Let_def
      split: prod.splits sum.splits)

lemma get_ray_paths_trace:
  "\<exists>r w' evs.
     get_ray_paths C self d dist pl po (w, tr) = (r, self, (w', tr @ evs))
     \<and> (evs = [Ev_engine_init (TauP_Path (case pl of Some p \<Rightarrow> p | None \<Rightarrow> [''ttall''])
                   (modelName (vMod (sMod (model self)))) d dist)]
        \<or> evs = [Ev_engine_init (TauP_Path (case pl of Some p \<Rightarrow> p | None \<Rightarrow> [''ttall''])
                   (modelName (vMod (sMod (model self)))) d dist),
                 Ev_engine_run (flag_default po)])
     \<and> filter loads_or_builds evs = []"
  by (auto simp: get_ray_paths_def call_engine_init_def call_engine_run_def Let_def
      split: prod.splits sum.splits)

text \<open>
  C1, as the code has it: when the first load fails with "not found", construction prints
  the diagnostic and calls the model builder once, with the derived file name and the model
  directory. If the builder returns, the load is tried once more, and its outcome (a model
  or an error) is the outcome of the construction; if the builder raises, its error is the
  outcome and the load is not tried again. The calls made are exactly those listed:
  nothing is built or loaded after them.
\<close>

theorem not_found_recovery:
  assumes not_found:
    "load C (model_default model_arg) (taup_model_path C) (flag_default verbose_arg) w =
       (Inl FileNotFoundError, w1)"
  shows "TauPyModel_init C model_arg verbose_arg (w, tr) =
    (case TauP_Create_main C (model_file_name_of (model_default model_arg)) (taup_model_path C) w1 of
       (Inl e, w2) \<Rightarrow>
         (Inl e, (w2, tr @
            [Ev_load (model_default model_arg) (taup_model_path C) (flag_default verbose_arg),
             Ev_print (not_found_message (model_default model_arg)),
             Ev_TauP_Create_main (model_file_name_of (model_default model_arg))
               (taup_model_path C)]))
     | (Inr u, w2) \<Rightarrow>
         (case load C (model_default model_arg) (taup_model_path C) (flag_default verbose_arg) w2 of
            (r, w3) \<Rightarrow>
              (map_sum id (\<lambda>m. \<lparr>model = m, verbose = flag_default verbose_arg\<rparr>) r,
               (w3, tr @
                  [Ev_load (model_default model_arg) (taup_model_path C) (flag_default verbose_arg),
                   Ev_print (not_found_message (model_default model_arg)),
                   Ev_TauP_Create_main (model_file_name_of (model_default model_arg))
                     (taup_model_path C),
                   Ev_load (model_default model_arg) (taup_model_path C)
                     (flag_default verbose_arg)]))))"
proof -
  let ?n = "model_default model_arg" and ?v = "flag_default verbose_arg"
    and ?p = "taup_model_path C"
  obtain b w2 where build: "TauP_Create_main C (model_file_name_of ?n) ?p w1 = (b, w2)"
    by (cases "TauP_Create_main C (model_file_name_of ?n) ?p w1")
  show ?thesis
  proof (cases b)
    case (Inl e)
    with build have "TauP_Create_main C (model_file_name_of ?n) ?p w1 = (Inl e, w2)"
      by simp
    from init_not_found_build_fails [OF not_found this, of tr] Inl build
    show ?thesis by simp
  next
    case (Inr u)
    obtain r w3 where retry: "load C ?n ?p ?v w2 = (r, w3)"
      by (cases "load C ?n ?p ?v w2")
    from Inr build have "TauP_Create_main C (model_file_name_of ?n) ?p w1 = (Inr u, w2)"
      by simp
    from init_not_found_build_returns [OF not_found this retry, of tr] Inr build retry
    show ?thesis by simp
  qed
qed

text \<open>
  The model \<^verbatim>\<open>ak135\<close> is not in the empty directory; it is built from \<^verbatim>\<open>ak135.tvel\<close>
  and found by the second load.
\<close>

theorem not_found_recovery_witness:
  "TauPyModel_init dir_collaborators (Some ''ak135'') None ([], []) =
     (Inr \<lparr>model = tau_model_named ''ak135'', verbose = False\<rparr>,
      ([''ak135''],
       [Ev_load ''ak135'' ''taupy/data/taup_models'' False,
        Ev_print (not_found_message ''ak135''),
        Ev_TauP_Create_main ''ak135.tvel'' ''taupy/data/taup_models'',
        Ev_load ''ak135'' ''taupy/data/taup_models'' False]))"
proof -
  have h: "load dir_collaborators (model_default (Some ''ak135''))
      (taup_model_path dir_collaborators) (flag_default None) [] = (Inl FileNotFoundError, [])"
    by (simp add: dir_collaborators_def model_default_simps flag_default_simps)
  show ?thesis
    using not_found_recovery [OF h, of "[]"]
    by (simp add: dir_collaborators_def model_default_simps flag_default_simps
        model_file_name_of_def)
qed

text \<open>
  No velocity file exists for \<^verbatim>\<open>prem\<close>: the first load reports "not found", the
  builder raises, and construction ends with the builder's error after a single load.
\<close>

theorem retry_skipped_counterexample:
  "fst (load dir_collaborators ''prem'' (taup_model_path dir_collaborators) False [])
     = Inl FileNotFoundError
   \<and> TauPyModel_init dir_collaborators (Some ''prem'') (Some False) ([], []) =
     (Inl (OtherError ''no velocity file''),
      ([],
       [Ev_load ''prem'' ''taupy/data/taup_models'' False,
        Ev_print (not_found_message ''prem''),
        Ev_TauP_Create_main ''prem.tvel'' ''taupy/data/taup_models'']))"
  by (simp add: dir_collaborators_def init_defs model_file_name_of_def
      model_default_simps flag_default_simps)


text \<open>
  C3: a first load that fails with an error other than "not found" ends the construction
  with that same error after this one call, so the builder is not invoked. When the first
  load reports "not found" and the builder returns, an error of the second load, "not
  found" included, ends the construction with that same error; no call follows it.
\<close>

theorem load_errors_propagate:
  "(load C (model_default model_arg) (taup_model_path C) (flag_default verbose_arg) w =
      (Inl (OtherError x), w1) \<longrightarrow>
    TauPyModel_init C model_arg verbose_arg (w, tr) =
      (Inl (OtherError x),
       (w1, tr @ [Ev_load (model_default model_arg) (taup_model_path C)
                    (flag_default verbose_arg)])))
   \<and> (load C (model_default model_arg) (taup_model_path C) (flag_default verbose_arg) w =
        (Inl FileNotFoundError, w1)
      \<and> TauP_Create_main C (model_file_name_of (model_default model_arg)) (taup_model_path C) w1 =
        (Inr u, w2)
      \<and> load C (model_default model_arg) (taup_model_path C) (flag_default verbose_arg) w2 =
        (Inl e, w3) \<longrightarrow>
      TauPyModel_init C model_arg verbose_arg (w, tr) =
        (Inl e,
         (w3, tr @
           [Ev_load (model_default model_arg) (taup_model_path C) (flag_default verbose_arg),
            Ev_print (not_found_message (model_default model_arg)),
            Ev_TauP_Create_main (model_file_name_of (model_default model_arg))
              (taup_model_path C),
            Ev_load (model_default model_arg) (taup_model_path C)
              (flag_default verbose_arg)])))"
proof (intro conjI impI)
  assume "load C (model_default model_arg) (taup_model_path C) (flag_default verbose_arg) w =
      (Inl (OtherError x), w1)"
  then show "TauPyModel_init C model_arg verbose_arg (w, tr) =
      (Inl (OtherError x),
       (w1, tr @ [Ev_load (model_default model_arg) (taup_model_path C)
                    (flag_default verbose_arg)]))"
    by (rule init_other_error)
next
  assume a: "load C (model_default model_arg) (taup_model_path C) (flag_default verbose_arg) w =
        (Inl FileNotFoundError, w1)
      \<and> TauP_Create_main C (model_file_name_of (model_default model_arg)) (taup_model_path C) w1 =
        (Inr u, w2)
      \<and> load C (model_default model_arg) (taup_model_path C) (flag_default verbose_arg) w2 =
        (Inl e, w3)"
  from init_not_found_build_returns [of C model_arg verbose_arg w w1 u w2 "Inl e" w3 tr] a
  show "TauPyModel_init C model_arg verbose_arg (w, tr) =
        (Inl e,
         (w3, tr @
           [Ev_load (model_default model_arg) (taup_model_path C) (flag_default verbose_arg),
            Ev_print (not_found_message (model_default model_arg)),
            Ev_TauP_Create_main (model_file_name_of (model_default model_arg))
              (taup_model_path C),
            Ev_load (model_default model_arg) (taup_model_path C)
              (flag_default verbose_arg)]))"
    by simp
qed

text \<open>
  The artifact \<^verbatim>\<open>corrupt\<close> is unreadable; the builder returns for \<^verbatim>\<open>ghost.tvel\<close> without
  writing an artifact, so the second load reports "not found" again.
\<close>

theorem load_errors_propagate_witness:
  "TauPyModel_init dir_collaborators (Some ''corrupt'') (Some True) ([''corrupt''], []) =
     (Inl (OtherError ''unreadable artifact''),
      ([''corrupt''], [Ev_load ''corrupt'' ''taupy/data/taup_models'' True]))
   \<and> TauPyModel_init dir_collaborators (Some ''ghost'') None ([], []) =
     (Inl FileNotFoundError,
      ([],
       [Ev_load ''ghost'' ''taupy/data/taup_models'' False,
        Ev_print (not_found_message ''ghost''),
        Ev_TauP_Create_main ''ghost.tvel'' ''taupy/data/taup_models'',
        Ev_load ''ghost'' ''taupy/data/taup_models'' False]))"
proof -
  let ?p = "taup_model_path dir_collaborators"
  have other: "load dir_collaborators (model_default (Some ''corrupt'')) ?p
      (flag_default (Some True)) [''corrupt''] =
      (Inl (OtherError ''unreadable artifact''), [''corrupt''])"
    by (simp add: dir_collaborators_def model_default_simps flag_default_simps)
  have twice: "load dir_collaborators (model_default (Some ''ghost'')) ?p (flag_default None) [] =
        (Inl FileNotFoundError, [])
      \<and> TauP_Create_main dir_collaborators (model_file_name_of (model_default (Some ''ghost'')))
          ?p [] = (Inr (), [])
      \<and> load dir_collaborators (model_default (Some ''ghost'')) ?p (flag_default None) [] =
        (Inl FileNotFoundError, [])"
    by (simp add: dir_collaborators_def model_default_simps flag_default_simps
        model_file_name_of_def)
  from load_errors_propagate
     [where C = dir_collaborators and model_arg = "Some ''corrupt''"
        and verbose_arg = "Some True" and w = "[''corrupt'']"
        and x = "''unreadable artifact''" and ?w1.0 = "[''corrupt'']" and tr = "[]",
      THEN conjunct1, THEN mp, OF other]
  have first: "TauPyModel_init dir_collaborators (Some ''corrupt'') (Some True)
      ([''corrupt''], []) =
     (Inl (OtherError ''unreadable artifact''),
      ([''corrupt''], [Ev_load ''corrupt'' ''taupy/data/taup_models'' True]))"
    by (simp add: dir_collaborators_def model_default_simps flag_default_simps)
  from load_errors_propagate
     [where C = dir_collaborators and model_arg = "Some ''ghost''"
        and verbose_arg = None and w = "[]" and ?w1.0 = "[]" and u = "()" and ?w2.0 = "[]"
        and e = FileNotFoundError and ?w3.0 = "[]" and tr = "[]",
      THEN conjunct2, THEN mp, OF twice]
  have second: "TauPyModel_init dir_collaborators (Some ''ghost'') None ([], []) =
     (Inl FileNotFoundError,
      ([],
       [Ev_load ''ghost'' ''taupy/data/taup_models'' False,
        Ev_print (not_found_message ''ghost''),
        Ev_TauP_Create_main ''ghost.tvel'' ''taupy/data/taup_models'',
        Ev_load ''ghost'' ''taupy/data/taup_models'' False]))"
    by (simp add: dir_collaborators_def model_default_simps flag_default_simps
        model_file_name_of_def)
  from first second show ?thesis by (rule conjI)
qed

text \<open>
  C4: \<^verbatim>\<open>create_taup_model\<close> makes one call to the model builder. The file name it passes
  is the model name itself when the name contains a dot, and the model name followed by
  \<^verbatim>\<open>.tvel\<close> when it does not; the output directory is passed as given. The builder's
  outcome is the outcome of the call.
\<close>

theorem create_taup_model_file_name:
  "(CHR ''.'' \<in> set model_name \<longrightarrow>
      create_taup_model C model_name output_dir (w, tr) =
        (case TauP_Create_main C model_name output_dir w of
           (r, w') \<Rightarrow> (r, (w', tr @ [Ev_TauP_Create_main model_name output_dir]))))
   \<and> (CHR ''.'' \<notin> set model_name \<longrightarrow>
      create_taup_model C model_name output_dir (w, tr) =
        (case TauP_Create_main C (model_name @ ''.tvel'') output_dir w of
           (r, w') \<Rightarrow> (r, (w', tr @ [Ev_TauP_Create_main (model_name @ ''.tvel'') output_dir]))))"
  by (simp add: create_taup_model_def model_file_name_of_def call_TauP_Create_main_def)

theorem create_taup_model_file_name_witness:
  "create_taup_model dir_collaborators ''north.sea.nd'' ''out'' ([], []) =
     (Inl (OtherError ''no velocity file''), ([], [Ev_TauP_Create_main ''north.sea.nd'' ''out'']))
   \<and> create_taup_model dir_collaborators ''ak135'' ''out'' ([], []) =
     (Inr (), ([''ak135''], [Ev_TauP_Create_main ''ak135.tvel'' ''out'']))"
proof -
  have dot: "CHR ''.'' \<in> set ''north.sea.nd''" by simp
  have nodot: "CHR ''.'' \<notin> set ''ak135''" by simp
  from create_taup_model_file_name
     [where C = dir_collaborators and model_name = "''north.sea.nd''" and output_dir = "''out''"
        and w = "[]" and tr = "[]", THEN conjunct1, THEN mp, OF dot]
  have first: "create_taup_model dir_collaborators ''north.sea.nd'' ''out'' ([], []) =
     (Inl (OtherError ''no velocity file''), ([], [Ev_TauP_Create_main ''north.sea.nd'' ''out'']))"
    by (simp add: dir_collaborators_def)
  from create_taup_model_file_name
     [where C = dir_collaborators and model_name = "''ak135''" and output_dir = "''out''"
        and w = "[]" and tr = "[]", THEN conjunct2, THEN mp, OF nodot]
  have second: "create_taup_model dir_collaborators ''ak135'' ''out'' ([], []) =
     (Inr (), ([''ak135''], [Ev_TauP_Create_main ''ak135.tvel'' ''out'']))"
    by (simp add: dir_collaborators_def)
  from first second show ?thesis by (rule conjI)
qed

text \<open>
  C7: \<^verbatim>\<open>get_travel_time\<close> without a phase list and with the phase list \<^verbatim>\<open>["ttall"]\<close>,
  all other arguments equal, are the same computation: the same engine request, the same
  calls, the same result and the same final state.
\<close>

theorem get_travel_time_default_phase_list:
  "get_travel_time C self source_depth_in_km distance_in_degree None print_output
       coordinate_list s =
   get_travel_time C self source_depth_in_km distance_in_degree (Some [''ttall'']) print_output
       coordinate_list s"
  by (simp add: get_travel_time_def)

text \<open>
  C9: construction without a model name is construction with the name \<^verbatim>\<open>iasp91\<close>, and
  construction without a verbosity argument is construction with verbosity off. With
  neither argument the first call made is the load of \<^verbatim>\<open>iasp91\<close> with verbosity off.
\<close>

theorem TauPyModel_init_defaults:
  "TauPyModel_init C None verbose_arg s = TauPyModel_init C (Some ''iasp91'') verbose_arg s
   \<and> TauPyModel_init C model_arg None s = TauPyModel_init C model_arg (Some False) s
   \<and> (\<exists>r w' rest. TauPyModel_init C None None (w, tr) =
         (r, (w', tr @ Ev_load ''iasp91'' (taup_model_path C) False # rest)))"
proof (intro conjI)
  show "TauPyModel_init C None verbose_arg s = TauPyModel_init C (Some ''iasp91'') verbose_arg s"
    by (simp add: TauPyModel_init_def model_default_simps)
  show "TauPyModel_init C model_arg None s = TauPyModel_init C model_arg (Some False) s"
    by (simp add: TauPyModel_init_def flag_default_simps)
  show "\<exists>r w' rest. TauPyModel_init C None None (w, tr) =
         (r, (w', tr @ Ev_load ''iasp91'' (taup_model_path C) False # rest))"
    by (auto simp: init_defs model_default_simps flag_default_simps
        split: prod.splits sum.splits exn.splits)
qed


text \<open>
  C8: a construction that succeeds binds the model returned by the one load that returned
  a model (the first load, or the retry after "not found" and a build), together with the
  verbosity flag. Every query method, on any facade and in any state of the world, returns
  the facade as it received it, constructs its engine with the name of the bound model,
  and makes no call besides the engine's constructor and \<^verbatim>\<open>run\<close>: nothing is loaded or
  built.
\<close>

theorem model_bound_once_and_reused:
  "(TauPyModel_init C model_arg verbose_arg (w0, tr0) = (Inr built, (w1, tr1)) \<longrightarrow>
      verbose built = flag_default verbose_arg \<and>
      ((load C (model_default model_arg) (taup_model_path C) (flag_default verbose_arg) w0 =
          (Inr (model built), w1) \<and>
        tr1 = tr0 @ [Ev_load (model_default model_arg) (taup_model_path C)
                       (flag_default verbose_arg)]) \<or>
       (\<exists>wa u wb.
          load C (model_default model_arg) (taup_model_path C) (flag_default verbose_arg) w0 =
            (Inl FileNotFoundError, wa) \<and>
          TauP_Create_main C (model_file_name_of (model_default model_arg))
              (taup_model_path C) wa = (Inr u, wb) \<and>
          load C (model_default model_arg) (taup_model_path C) (flag_default verbose_arg) wb =
            (Inr (model built), w1) \<and>
          tr1 = tr0 @
            [Ev_load (model_default model_arg) (taup_model_path C) (flag_default verbose_arg),
             Ev_print (not_found_message (model_default model_arg)),
             Ev_TauP_Create_main (model_file_name_of (model_default model_arg))
               (taup_model_path C),
             Ev_load (model_default model_arg) (taup_model_path C)
               (flag_default verbose_arg)])))
   \<and> (\<exists>r w' evs.
        get_travel_time C self source_depth_in_km distance_opt phase_list print_output
            coordinate_list (w, tr) = (r, self, (w', tr @ evs))
        \<and> (evs = [Ev_engine_init
                     (TauP_Time (case phase_list of Some p \<Rightarrow> p | None \<Rightarrow> [''ttall''])
                        (modelName (vMod (sMod (model self)))) source_depth_in_km distance_opt
                        coordinate_list)]
           \<or> evs = [Ev_engine_init
                     (TauP_Time (case phase_list of Some p \<Rightarrow> p | None \<Rightarrow> [''ttall''])
                        (modelName (vMod (sMod (model self)))) source_depth_in_km distance_opt
                        coordinate_list),
                    Ev_engine_run (flag_default print_output)])
        \<and> filter loads_or_builds evs = [])
   \<and> (\<exists>r w' evs.
        get_pierce_points C self source_depth_in_km distance_in_degree phase_list print_output
            (w, tr) = (r, self, (w', tr @ evs))
        \<and> (evs = [Ev_engine_init
                     (TauP_Pierce (case phase_list of Some p \<Rightarrow> p | None \<Rightarrow> [''ttall''])
                        (modelName (vMod (sMod (model self)))) source_depth_in_km
                        distance_in_degree)]
           \<or> evs = [Ev_engine_init
                     (TauP_Pierce (case phase_list of Some p \<Rightarrow> p | None \<Rightarrow> [''ttall''])
                        (modelName (vMod (sMod (model self)))) source_depth_in_km
                        distance_in_degree),
                    Ev_engine_run (flag_default print_output)])
        \<and> filter loads_or_builds evs = [])
   \<and> (\<exists>r w' evs.
        get_ray_paths C self source_depth_in_km distance_in_degree phase_list print_output
            (w, tr) = (r, self, (w', tr @ evs))
        \<and> (evs = [Ev_engine_init
                     (TauP_Path (case phase_list of Some p \<Rightarrow> p | None \<Rightarrow> [''ttall''])
                        (modelName (vMod (sMod (model self)))) source_depth_in_km
                        distance_in_degree)]
           \<or> evs = [Ev_engine_init
                     (TauP_Path (case phase_list of Some p \<Rightarrow> p | None \<Rightarrow> [''ttall''])
                        (modelName (vMod (sMod (model self)))) source_depth_in_km
                        distance_in_degree),
                    Ev_engine_run (flag_default print_output)])
        \<and> filter loads_or_builds evs = [])"
  using init_success_cases [of C model_arg verbose_arg w0 tr0 built w1 tr1]
    get_travel_time_trace [of C self source_depth_in_km distance_opt phase_list print_output
      coordinate_list w tr]
    get_pierce_points_trace [of C self source_depth_in_km distance_in_degree phase_list
      print_output w tr]
    get_ray_paths_trace [of C self source_depth_in_km distance_in_degree phase_list
      print_output w tr]
  by blast

theorem model_bound_once_and_reused_witness:
  "verbose \<lparr>model = tau_model_named ''ak135'', verbose = True\<rparr> = True
   \<and> load dir_collaborators ''ak135'' ''taupy/data/taup_models'' True [''ak135''] =
       (Inr (tau_model_named ''ak135''), [''ak135''])
   \<and> get_travel_time dir_collaborators \<lparr>model = tau_model_named ''ak135'', verbose = True\<rparr>
        10 (Some 20) (Some [''P'', ''S'']) None None
        ([''ak135''], [Ev_load ''ak135'' ''taupy/data/taup_models'' True]) =
       (Inr [''P'', ''S''], \<lparr>model = tau_model_named ''ak135'', verbose = True\<rparr>,
        ([''ak135''],
         [Ev_load ''ak135'' ''taupy/data/taup_models'' True,
          Ev_engine_init (TauP_Time [''P'', ''S''] ''ak135'' 10 (Some 20) None),
          Ev_engine_run False]))"
proof -
  let ?f = "\<lparr>model = tau_model_named ''ak135'', verbose = True\<rparr>"
  let ?ld = "Ev_load ''ak135'' ''taupy/data/taup_models'' True :: int event"
  have built: "TauPyModel_init dir_collaborators (Some ''ak135'') (Some True) ([''ak135''], []) =
      (Inr ?f, ([''ak135''], [?ld]))"
    by (simp add: dir_collaborators_def init_defs model_default_simps flag_default_simps)
  have nf: "load dir_collaborators ''ak135'' ''taupy/data/taup_models'' True [''ak135''] \<noteq>
      (Inl FileNotFoundError, wa)" for wa
    by (simp add: dir_collaborators_def)
  from model_bound_once_and_reused
     [where C = dir_collaborators and model_arg = "Some ''ak135''" and verbose_arg = "Some True"
        and ?w0.0 = "[''ak135'']" and ?tr0.0 = "[]" and built = ?f and ?w1.0 = "[''ak135'']"
        and ?tr1.0 = "[?ld]", THEN conjunct1, THEN mp, OF built]
  have bound: "verbose ?f = True
     \<and> load dir_collaborators ''ak135'' ''taupy/data/taup_models'' True [''ak135''] =
       (Inr (tau_model_named ''ak135''), [''ak135''])"
    using nf by (auto simp: dir_collaborators_def model_default_simps flag_default_simps)
  have reuse: "get_travel_time dir_collaborators ?f 10 (Some 20) (Some [''P'', ''S'']) None None
        ([''ak135''], [?ld]) =
       (Inr [''P'', ''S''], ?f,
        ([''ak135''],
         [?ld, Ev_engine_init (TauP_Time [''P'', ''S''] ''ak135'' 10 (Some 20) None),
          Ev_engine_run False]))"
    by (simp add: get_travel_time_def call_engine_init_def call_engine_run_def
        dir_collaborators_def tau_model_named_def flag_default_simps Arrivals_init_def
        list_extend_def Let_def)
  from bound reuse show ?thesis by simp
qed

text \<open>
  C2: an empty phase list is not \<^verbatim>\<open>None\<close>, so none of the three query methods replaces
  it: each constructs its engine with the empty phase list, not with \<^verbatim>\<open>["ttall"]\<close>.
\<close>

theorem empty_phase_list_passed_through:
  "get_travel_time dir_collaborators \<lparr>model = tau_model_named ''iasp91'', verbose = False\<rparr>
       10 (Some 20) (Some []) None None ([''iasp91''], []) =
     (Inr [], \<lparr>model = tau_model_named ''iasp91'', verbose = False\<rparr>,
      ([''iasp91''],
       [Ev_engine_init (TauP_Time [] ''iasp91'' 10 (Some 20) None), Ev_engine_run False]))
   \<and> get_pierce_points dir_collaborators \<lparr>model = tau_model_named ''iasp91'', verbose = False\<rparr>
       10 20 (Some []) None ([''iasp91''], []) =
     (Inr [], \<lparr>model = tau_model_named ''iasp91'', verbose = False\<rparr>,
      ([''iasp91''],
       [Ev_engine_init (TauP_Pierce [] ''iasp91'' 10 20), Ev_engine_run False]))
   \<and> get_ray_paths dir_collaborators \<lparr>model = tau_model_named ''iasp91'', verbose = False\<rparr>
       10 20 (Some []) None ([''iasp91''], []) =
     (Inr [], \<lparr>model = tau_model_named ''iasp91'', verbose = False\<rparr>,
      ([''iasp91''],
       [Ev_engine_init (TauP_Path [] ''iasp91'' 10 20), Ev_engine_run False]))"
  by (simp add: get_travel_time_def get_pierce_points_def get_ray_paths_def
      call_engine_init_def call_engine_run_def dir_collaborators_def tau_model_named_def
      flag_default_simps Arrivals_init_def list_extend_def Let_def)

end
